theory Spec2Isabelle
  imports Complex_Main
begin

section \<open>Python values\<close>

text \<open>
  The library is written in Python and its three constructor arguments are lists.
  Identifiers (hashable labels) and structures (opaque objects that the class never
  inspects) are type parameters \<open>'k\<close> and \<open>'s\<close>. An orientation-set is whatever
  Python object the caller stored at that position: the only operation the class applies
  to it is \<open>len\<close>, so it is modelled as a Python object that is a number, a tuple or a
  list.
\<close>

datatype pyobj = PyNum real | PyTuple "pyobj list" | PyList "pyobj list"

datatype mismatch = Structures | Orientations

text \<open>
  \<open>ValueError m a b\<close> stands for the message
  \<^verbatim>\<open>'Number of identifiers ({}) and <m> ({}) must be the same.'.format(a, b)\<close>.
\<close>

datatype error = ValueError mismatch nat nat | TypeError | IndexError | AttributeError

text \<open>\<open>len(x)\<close>: tuples and lists have a length, a number has none.\<close>

fun py_len :: "pyobj \<Rightarrow> error + nat" where
  "py_len (PyNum r) = Inl TypeError"
| "py_len (PyTuple xs) = Inr (length xs)"
| "py_len (PyList xs) = Inr (length xs)"

text \<open>\<open>xs[i]\<close> for a non-negative index: out of range raises.\<close>

definition py_getitem :: "'a list \<Rightarrow> nat \<Rightarrow> error + 'a" where
  "py_getitem xs i = (if i < length xs then Inr (xs ! i) else Inl IndexError)"

text \<open>
  A Python \<open>dict\<close> keeps its keys in insertion order; \<open>d[k] = v\<close> replaces the value
  of a key that is present, in place, and appends a new key at the end.
\<close>

type_synonym ('k, 'v) dict = "('k \<times> 'v) list"

fun dict_setitem :: "'k \<Rightarrow> 'v \<Rightarrow> ('k, 'v) dict \<Rightarrow> ('k, 'v) dict" where
  "dict_setitem k v [] = [(k, v)]"
| "dict_setitem k v (p # ps) = (if fst p = k then (k, v) # ps else p # dict_setitem k v ps)"

definition dict_keys :: "('k, 'v) dict \<Rightarrow> 'k list" where
  "dict_keys d = map fst d"

definition dict_get :: "('k, 'v) dict \<Rightarrow> 'k \<Rightarrow> 'v option" where
  "dict_get d k = map_of d k"

section \<open>The StructureLibrary object\<close>

text \<open>
  An instance is its attribute dictionary: an attribute that has not been assigned is
  \<open>None\<close>, and reading it raises \<open>AttributeError\<close>. A fresh instance, as
  \<open>__init__\<close> receives it from the constructor call, has no attribute.
\<close>

record ('k, 's) StructureLibrary =
  identifiers :: "'k list option"
  structures :: "'s list option"
  orientations :: "pyobj list option"
  struct_lib :: "('k, 's \<times> pyobj) dict option"

definition new_object :: "('k, 's) StructureLibrary" where
  "new_object = \<lparr>identifiers = None, structures = None, orientations = None, struct_lib = None\<rparr>"

text \<open>
  The loop \<^verbatim>\<open>for ident, struct, ori in zip(identifiers, structures, orientations):
  self.struct_lib[ident] = (struct, ori)\<close>, on the dictionary it fills.
\<close>

fun fill_struct_lib ::
  "('k \<times> 's \<times> pyobj) list \<Rightarrow> ('k, 's \<times> pyobj) dict \<Rightarrow> ('k, 's \<times> pyobj) dict" where
  "fill_struct_lib [] d = d"
| "fill_struct_lib ((ident, struct, ori) # rest) d =
     fill_struct_lib rest (dict_setitem ident (struct, ori) d)"

text \<open>
  \<open>__init__(self, identifiers, structures, orientations)\<close>: the object after the call,
  and the exception if one was raised.
\<close>

definition init ::
  "('k, 's) StructureLibrary \<Rightarrow> 'k list \<Rightarrow> 's list \<Rightarrow> pyobj list
     \<Rightarrow> error option \<times> ('k, 's) StructureLibrary" where
  "init self ids structs oris =
     (if length ids \<noteq> length structs then
        (Some (ValueError Structures (length ids) (length structs)), self)
      else if length ids \<noteq> length oris then
        (Some (ValueError Orientations (length ids) (length oris)), self)
      else
        (None,
         self\<lparr>identifiers := Some ids,
              structures := Some structs,
              orientations := Some oris,
              struct_lib := Some (fill_struct_lib (zip ids (zip structs oris)) [])\<rparr>))"

text \<open>
  The call \<open>StructureLibrary(identifiers, structures, orientations)\<close>: a fresh
  instance is initialised, and returned unless \<open>__init__\<close> raised.
\<close>

definition StructureLibrary_call ::
  "'k list \<Rightarrow> 's list \<Rightarrow> pyobj list \<Rightarrow> error + ('k, 's) StructureLibrary" where
  "StructureLibrary_call ids structs oris =
     (case init new_object ids structs oris of
        (Some e, self) \<Rightarrow> Inl e
      | (None, self) \<Rightarrow> Inr self)"

section \<open>get_library_size\<close>

text \<open>
  Standard output is the list of \<open>print\<close> calls made, each with its arguments in
  order.
\<close>

datatype 'k print_arg = PObj 'k | PStr string | PInt nat

type_synonym 'k stdout = "'k print_arg list list"

text \<open>
  The body of the loop over \<open>range(len(self.orientations))\<close>, with the running
  \<open>size_library\<close> and what has been printed so far. An exception leaves the output
  as it was before the failing iteration, each iteration printing last.
\<close>

fun size_loop ::
  "('k, 's) StructureLibrary \<Rightarrow> bool \<Rightarrow> nat list \<Rightarrow> nat \<Rightarrow> 'k stdout
     \<Rightarrow> (error + nat) \<times> 'k stdout" where
  "size_loop self to_print [] size_library out = (Inr size_library, out)"
| "size_loop self to_print (i # rest) size_library out =
     (case orientations self of
        None \<Rightarrow> (Inl AttributeError, out)
      | Some oris \<Rightarrow>
         (case py_getitem oris i of
            Inl e \<Rightarrow> (Inl e, out)
          | Inr ori \<Rightarrow>
             (case py_len ori of
                Inl e \<Rightarrow> (Inl e, out)
              | Inr n \<Rightarrow>
                 let size_library' = (if n = 1 then size_library + 1 else size_library + n)
                 in if to_print then
                      (case identifiers self of
                         None \<Rightarrow> (Inl AttributeError, out)
                       | Some ids \<Rightarrow>
                          (case py_getitem ids i of
                             Inl e \<Rightarrow> (Inl e, out)
                           | Inr ident \<Rightarrow>
                              size_loop self to_print rest size_library'
                                (out @ [[PObj ident, PStr ''has'', PInt n,
                                         PStr ''number of entries.'']])))
                    else size_loop self to_print rest size_library' out)))"

definition get_library_size ::
  "('k, 's) StructureLibrary \<Rightarrow> bool \<Rightarrow> (error + nat) \<times> 'k stdout" where
  "get_library_size self to_print =
     (case orientations self of
        None \<Rightarrow> (Inl AttributeError, [])
      | Some oris \<Rightarrow>
         (case size_loop self to_print [0..<length oris] 0 [] of
            (Inl e, out) \<Rightarrow> (Inl e, out)
          | (Inr size_library, out) \<Rightarrow>
             (Inr size_library,
              if to_print then
                out @ [[PStr (CHR 0x0A # ''In total:''), PInt size_library,
                        PStr ''number of entries'']]
              else out)))"

section \<open>The named constructors\<close>

definition from_orientation_lists ::
  "'k list \<Rightarrow> 's list \<Rightarrow> pyobj list \<Rightarrow> error + ('k, 's) StructureLibrary" where
  "from_orientation_lists ids structs oris = StructureLibrary_call ids structs oris"

text \<open>
  \<open>get_grid_streographic\<close> is imported from another module and is a parameter here:
  a call takes the crystal system, the resolution and the equal-mode, may raise, and may
  change a state \<open>'w\<close> of its own.
\<close>

type_synonym ('sys, 'res, 'eq, 'w) generator =
  "'sys \<Rightarrow> 'res \<Rightarrow> 'eq \<Rightarrow> 'w \<Rightarrow> (error + pyobj) \<times> 'w"

text \<open>
  The loop \<^verbatim>\<open>for system in systems: orientations.append(get_grid_streographic(system,
  resolution, equal))\<close>; an exception of the generator ends it.
\<close>

fun generate_orientations ::
  "('sys, 'res, 'eq, 'w) generator \<Rightarrow> 'sys list \<Rightarrow> 'res \<Rightarrow> 'eq \<Rightarrow> pyobj list \<Rightarrow> 'w
     \<Rightarrow> (error + pyobj list) \<times> 'w" where
  "generate_orientations gen [] resolution equal oris w = (Inr oris, w)"
| "generate_orientations gen (system # rest) resolution equal oris w =
     (case gen system resolution equal w of
        (Inl e, w') \<Rightarrow> (Inl e, w')
      | (Inr ori, w') \<Rightarrow> generate_orientations gen rest resolution equal (oris @ [ori]) w')"

definition from_crystal_systems ::
  "('sys, 'res, 'eq, 'w) generator \<Rightarrow> 'k list \<Rightarrow> 's list \<Rightarrow> 'sys list \<Rightarrow> 'res \<Rightarrow> 'eq \<Rightarrow> 'w
     \<Rightarrow> (error + ('k, 's) StructureLibrary) \<times> 'w" where
  "from_crystal_systems gen ids structs systems resolution equal w =
     (case generate_orientations gen systems resolution equal [] w of
        (Inl e, w') \<Rightarrow> (Inl e, w')
      | (Inr oris, w') \<Rightarrow> (StructureLibrary_call ids structs oris, w'))"

text \<open>
  A generator that computes its result from its arguments alone and records every call
  it receives: its state is the list of argument triples, oldest first.
\<close>

definition recording ::
  "('sys \<Rightarrow> 'res \<Rightarrow> 'eq \<Rightarrow> error + pyobj)
     \<Rightarrow> ('sys, 'res, 'eq, ('sys \<times> 'res \<times> 'eq) list) generator" where
  "recording g system resolution equal calls =
     (g system resolution equal, calls @ [(system, resolution, equal)])"

section \<open>get_library_size without the special case\<close>

text \<open>
  The same method with the branch on \<open>len(self.orientations[i]) == 1\<close> removed:
  every iteration adds the raw length. It is what the method is compared with below.
\<close>

fun size_loop_plain ::
  "('k, 's) StructureLibrary \<Rightarrow> bool \<Rightarrow> nat list \<Rightarrow> nat \<Rightarrow> 'k stdout
     \<Rightarrow> (error + nat) \<times> 'k stdout" where
  "size_loop_plain self to_print [] size_library out = (Inr size_library, out)"
| "size_loop_plain self to_print (i # rest) size_library out =
     (case orientations self of
        None \<Rightarrow> (Inl AttributeError, out)
      | Some oris \<Rightarrow>
         (case py_getitem oris i of
            Inl e \<Rightarrow> (Inl e, out)
          | Inr ori \<Rightarrow>
             (case py_len ori of
                Inl e \<Rightarrow> (Inl e, out)
              | Inr n \<Rightarrow>
                 if to_print then
                   (case identifiers self of
                      None \<Rightarrow> (Inl AttributeError, out)
                    | Some ids \<Rightarrow>
                       (case py_getitem ids i of
                          Inl e \<Rightarrow> (Inl e, out)
                        | Inr ident \<Rightarrow>
                           size_loop_plain self to_print rest (size_library + n)
                             (out @ [[PObj ident, PStr ''has'', PInt n,
                                      PStr ''number of entries.'']])))
                 else size_loop_plain self to_print rest (size_library + n) out)))"

definition get_library_size_plain ::
  "('k, 's) StructureLibrary \<Rightarrow> bool \<Rightarrow> (error + nat) \<times> 'k stdout" where
  "get_library_size_plain self to_print =
     (case orientations self of
        None \<Rightarrow> (Inl AttributeError, [])
      | Some oris \<Rightarrow>
         (case size_loop_plain self to_print [0..<length oris] 0 [] of
            (Inl e, out) \<Rightarrow> (Inl e, out)
          | (Inr size_library, out) \<Rightarrow>
             (Inr size_library,
              if to_print then
                out @ [[PStr (CHR 0x0A # ''In total:''), PInt size_library,
                        PStr ''number of entries'']]
              else out)))"

section \<open>Dictionary and constructor lemmas\<close>

lemma map_of_dict_setitem: "map_of (dict_setitem k v d) = (map_of d)(k \<mapsto> v)"
  by (induction d) (auto simp: fun_eq_iff)

lemma keys_dict_setitem:
  "map fst (dict_setitem k v d) = (if k \<in> set (map fst d) then map fst d else map fst d @ [k])"
  by (induction d) auto

lemma distinct_dict_setitem:
  "distinct (map fst d) \<Longrightarrow> distinct (map fst (dict_setitem k v d))"
  by (simp add: keys_dict_setitem)

lemma set_keys_dict_setitem: "fst ` set (dict_setitem k v d) = insert k (fst ` set d)"
  by (induction d) auto

lemma fill_struct_lib_snoc:
  "fill_struct_lib (es @ [(k, s, ori)]) d = dict_setitem k (s, ori) (fill_struct_lib es d)"
  by (induction es d rule: fill_struct_lib.induct) auto

lemma distinct_fill_struct_lib:
  "distinct (map fst d) \<Longrightarrow> distinct (map fst (fill_struct_lib es d))"
  by (induction es d rule: fill_struct_lib.induct) (auto simp: distinct_dict_setitem)

lemma set_keys_fill_struct_lib:
  "fst ` set (fill_struct_lib es d) = fst ` set d \<union> fst ` set es"
  by (induction es d rule: fill_struct_lib.induct) (simp_all add: set_keys_dict_setitem)

lemma fill_struct_lib_latest:
  "j < length es \<Longrightarrow> \<forall>j'. j < j' \<and> j' < length es \<longrightarrow> fst (es ! j') \<noteq> fst (es ! j)
    \<Longrightarrow> map_of (fill_struct_lib es d) (fst (es ! j)) = Some (snd (es ! j))"
proof (induction es rule: rev_induct)
  case Nil
  then show ?case by simp
next
  case (snoc e es)
  obtain k s ori where e: "e = (k, s, ori)" by (cases e)
  show ?case
  proof (cases "j < length es")
    case True
    from snoc.prems(2) have
      "j < length es \<and> length es < length (es @ [e])
        \<longrightarrow> fst ((es @ [e]) ! length es) \<noteq> fst ((es @ [e]) ! j)"
      by (rule spec)
    with True have "fst ((es @ [e]) ! length es) \<noteq> fst ((es @ [e]) ! j)"
      by simp
    with True have neq: "k \<noteq> fst (es ! j)" by (simp add: nth_append e)
    have "\<forall>j'. j < j' \<and> j' < length es \<longrightarrow> fst (es ! j') \<noteq> fst (es ! j)"
    proof (intro allI impI)
      fix j' assume a: "j < j' \<and> j' < length es"
      from snoc.prems(2) have
        "j < j' \<and> j' < length (es @ [e]) \<longrightarrow> fst ((es @ [e]) ! j') \<noteq> fst ((es @ [e]) ! j)"
        by (rule spec)
      with a have "fst ((es @ [e]) ! j') \<noteq> fst ((es @ [e]) ! j)" by simp
      with a True show "fst (es ! j') \<noteq> fst (es ! j)" by (simp add: nth_append)
    qed
    with snoc.IH True have "map_of (fill_struct_lib es d) (fst (es ! j)) = Some (snd (es ! j))"
      by simp
    with neq True show ?thesis
      by (simp add: e fill_struct_lib_snoc map_of_dict_setitem nth_append)
  next
    case False
    with snoc.prems(1) have "j = length es" by simp
    then show ?thesis by (simp add: e fill_struct_lib_snoc map_of_dict_setitem)
  qed
qed

section \<open>Construction\<close>

text \<open>
  Claim C1. For every triple of equal-length sequences the constructor call succeeds; the
  instance holds the three sequences as given in \<open>identifiers\<close>, \<open>structures\<close>
  and \<open>orientations\<close> (whose lengths are therefore equal); and \<open>struct_lib\<close> has
  exactly as many keys as there are distinct identifiers, these keys being the
  identifiers, each mapped to the (structure, orientation-set) pair of the last position
  that carries it.
\<close>

theorem init_equal_lengths:
  assumes "length ids = length structs" and "length ids = length oris"
  shows "\<exists>lib d. StructureLibrary_call ids structs oris = Inr lib
           \<and> identifiers lib = Some ids \<and> structures lib = Some structs
           \<and> orientations lib = Some oris
           \<and> length ids = length structs \<and> length structs = length oris
           \<and> struct_lib lib = Some d
           \<and> length (dict_keys d) = card (set ids)
           \<and> distinct (dict_keys d)
           \<and> set (dict_keys d) = set ids
           \<and> (\<forall>j. j < length ids \<and> (\<forall>j'. j < j' \<and> j' < length ids \<longrightarrow> ids ! j' \<noteq> ids ! j)
                 \<longrightarrow> dict_get d (ids ! j) = Some (structs ! j, oris ! j))"
proof -
  let ?es = "zip ids (zip structs oris)"
  let ?d = "fill_struct_lib ?es []"
  let ?lib = "new_object\<lparr>identifiers := Some ids, structures := Some structs,
                orientations := Some oris, struct_lib := Some ?d\<rparr>"
  have call: "StructureLibrary_call ids structs oris = Inr ?lib"
    using assms by (simp add: StructureLibrary_call_def init_def)
  have fst_es: "map fst ?es = ids" using assms by simp
  have dist: "distinct (dict_keys ?d)"
    unfolding dict_keys_def by (rule distinct_fill_struct_lib) simp
  have "fst ` set ?d = fst ` set ?es"
    by (simp only: set_keys_fill_struct_lib) simp
  also have "\<dots> = set (map fst ?es)" by simp
  finally have keys: "set (dict_keys ?d) = set ids"
    by (simp only: fst_es dict_keys_def set_map)
  have len: "length (dict_keys ?d) = card (set ids)"
    using dist keys by (metis distinct_card)
  have latest: "dict_get ?d (ids ! j) = Some (structs ! j, oris ! j)"
    if j: "j < length ids" and last: "\<forall>j'. j < j' \<and> j' < length ids \<longrightarrow> ids ! j' \<noteq> ids ! j" for j
  proof -
    have le: "length ?es = length ids" using assms by simp
    have nth: "?es ! i = (ids ! i, structs ! i, oris ! i)" if "i < length ids" for i
      using that assms by simp
    have "\<forall>j'. j < j' \<and> j' < length ?es \<longrightarrow> fst (?es ! j') \<noteq> fst (?es ! j)"
      using last j by (simp only: le) (auto simp: nth)
    with j le have "map_of ?d (fst (?es ! j)) = Some (snd (?es ! j))"
      by (intro fill_struct_lib_latest) simp_all
    with j show ?thesis by (simp add: nth dict_get_def)
  qed
  show ?thesis
    using call dist keys len latest assms by (intro exI[of _ ?lib] exI[of _ ?d]) simp
qed

theorem init_equal_lengths_witness:
  "length [''a'', ''b'', ''a''] = length [1::nat, 2, 3]
   \<and> length [''a'', ''b'', ''a''] = length [PyList [], PyTuple [], PyNum 0]
   \<and> (\<exists>lib d. StructureLibrary_call [''a'', ''b'', ''a''] [1::nat, 2, 3]
                  [PyList [], PyTuple [], PyNum 0] = Inr lib
          \<and> identifiers lib = Some [''a'', ''b'', ''a'']
          \<and> struct_lib lib = Some d
          \<and> length (dict_keys d) = 2
          \<and> dict_get d ''a'' = Some (3, PyNum 0))"
proof -
  let ?ids = "[''a'', ''b'', ''a'']"
  let ?structs = "[1::nat, 2, 3]"
  let ?oris = "[PyList [], PyTuple [], PyNum 0]"
  have h1: "length ?ids = length ?structs" by simp
  have h2: "length ?ids = length ?oris" by simp
  from init_equal_lengths [OF h1 h2] obtain lib d where
    call: "StructureLibrary_call ?ids ?structs ?oris = Inr lib"
    and ids: "identifiers lib = Some ?ids"
    and d: "struct_lib lib = Some d"
    and len: "length (dict_keys d) = card (set ?ids)"
    and latest: "\<forall>j. j < length ?ids \<and> (\<forall>j'. j < j' \<and> j' < length ?ids \<longrightarrow> ?ids ! j' \<noteq> ?ids ! j)
                 \<longrightarrow> dict_get d (?ids ! j) = Some (?structs ! j, ?oris ! j)"
    by blast
  have card: "card (set ?ids) = 2" by (simp add: card_insert_if)
  from latest have
    "2 < length ?ids \<and> (\<forall>j'. 2 < j' \<and> j' < length ?ids \<longrightarrow> ?ids ! j' \<noteq> ?ids ! 2)
       \<longrightarrow> dict_get d (?ids ! 2) = Some (?structs ! 2, ?oris ! 2)"
    by (rule spec)
  moreover have "\<forall>j'::nat. \<not> (2 < j' \<and> j' < 3)" by arith
  ultimately have a: "dict_get d ''a'' = Some (3, PyNum 0)" by simp
  show ?thesis using h1 h2 call ids d len card a by simp
qed

section \<open>from_orientation_lists\<close>

text \<open>
  Claim C6. For all inputs, \<open>from_orientation_lists\<close> gives what the constructor call
  gives: the same instance (equal in \<open>identifiers\<close>, \<open>structures\<close>,
  \<open>orientations\<close> and \<open>struct_lib\<close>) when it succeeds, and the same error when it
  fails.
\<close>

theorem from_orientation_lists_is_call:
  "from_orientation_lists ids structs oris = StructureLibrary_call ids structs oris"
  by (simp add: from_orientation_lists_def)

section \<open>Lemmas on the size loop\<close>

lemma fst_get_library_size:
  "fst (get_library_size self to_print) =
     (case orientations self of
        None \<Rightarrow> Inl AttributeError
      | Some oris \<Rightarrow> fst (size_loop self to_print [0..<length oris] 0 []))"
  by (simp add: get_library_size_def split: option.splits prod.splits sum.splits)

lemma py_len_nth:
  assumes "map py_len oris = map Inr ns" and "i < length oris"
  shows "py_len (oris ! i) = Inr (ns ! i)"
proof -
  from assms(1) have "length oris = length ns" by (metis length_map)
  with assms(2) have l: "map py_len oris ! i = py_len (oris ! i)"
    and r: "map Inr ns ! i = (Inr (ns ! i) :: error + nat)"
    by simp_all
  from assms(1) have "map py_len oris ! i = map Inr ns ! i" by (rule arg_cong)
  then show ?thesis by (simp only: l r)
qed

lemma size_loop_value:
  assumes "orientations self = Some oris" and "map py_len oris = map Inr ns"
    and "to_print \<longrightarrow> (\<exists>ids. identifiers self = Some ids \<and> length oris \<le> length ids)"
  shows "\<forall>i \<in> set is. i < length oris \<Longrightarrow>
    fst (size_loop self to_print is s out) =
      Inr (s + (\<Sum>i\<leftarrow>is. if ns ! i = 1 then 1 else ns ! i))"
proof (induction "is" arbitrary: s out)
  case Nil
  then show ?case by simp
next
  case (Cons i rest)
  then have i: "i < length oris" and rest: "\<forall>i \<in> set rest. i < length oris" by simp_all
  have len: "py_len (oris ! i) = Inr (ns ! i)" using assms(2) i by (rule py_len_nth)
  show ?case
  proof (cases to_print)
    case True
    with assms(3) obtain ids where ids: "identifiers self = Some ids" "length oris \<le> length ids"
      by blast
    with i have "i < length ids" by simp
    with True ids assms(1) i len Cons.IH [OF rest] show ?thesis
      by (simp add: py_getitem_def)
  next
    case False
    with assms(1) i len Cons.IH [OF rest] show ?thesis
      by (simp add: py_getitem_def)
  qed
qed

lemma sum_list_nth_upt: "(\<Sum>i\<leftarrow>[0..<length ns]. f (ns ! i)) = (\<Sum>n\<leftarrow>ns. f n)"
proof -
  have "map (\<lambda>i. f (ns ! i)) [0..<length ns] = map f (map (\<lambda>i. ns ! i) [0..<length ns])"
    by simp
  also have "\<dots> = map f ns" by (simp only: map_nth)
  finally show ?thesis by simp
qed

lemma get_library_size_value:
  assumes "orientations self = Some oris" and "map py_len oris = map Inr ns"
    and "to_print \<longrightarrow> (\<exists>ids. identifiers self = Some ids \<and> length oris \<le> length ids)"
  shows "fst (get_library_size self to_print) = Inr (\<Sum>n\<leftarrow>ns. if n = 1 then 1 else n)"
proof -
  from assms(2) have len: "length oris = length ns" by (metis length_map)
  have "fst (size_loop self to_print [0..<length oris] 0 []) =
          Inr (0 + (\<Sum>i\<leftarrow>[0..<length oris]. if ns ! i = 1 then 1 else ns ! i))"
    by (rule size_loop_value [OF assms]) simp
  also have "\<dots> = Inr (\<Sum>n\<leftarrow>ns. if n = 1 then 1 else n)"
    by (simp only: len sum_list_nth_upt [of "\<lambda>n. if n = 1 then 1 else n"] add_0_left)
  finally show ?thesis using assms(1) by (simp add: fst_get_library_size)
qed

lemma call_attributes:
  assumes "StructureLibrary_call ids structs oris = Inr lib"
  shows "identifiers lib = Some ids" and "structures lib = Some structs"
    and "orientations lib = Some oris" and "length ids = length oris"
    and "length ids = length structs"
  using assms by (auto simp: StructureLibrary_call_def init_def split: if_splits)

lemma size_loop_print:
  assumes "orientations self = Some oris" and "identifiers self = Some ids"
    and "length oris \<le> length ids"
  shows "\<forall>i \<in> set is. i < length oris \<Longrightarrow>
    fst (size_loop self True is s out) = fst (size_loop self False is s out')"
proof (induction "is" arbitrary: s out out')
  case Nil
  then show ?case by simp
next
  case (Cons i rest)
  then have i: "i < length oris" and rest: "\<forall>i \<in> set rest. i < length oris" by simp_all
  with assms(3) have "i < length ids" by simp
  with assms(1,2) i Cons.IH [OF rest] show ?case
    by (simp add: py_getitem_def split: sum.splits)
qed

lemma special_case_vacuous: "(if n = 1 then s + 1 else s + n) = s + (n::nat)"
  by simp

lemma size_loop_plain_eq: "size_loop self to_print is s out = size_loop_plain self to_print is s out"
proof (induction "is" arbitrary: s out)
  case Nil
  show ?case by simp
next
  case (Cons i rest)
  show ?case
    by (simp only: size_loop.simps size_loop_plain.simps Let_def special_case_vacuous Cons.IH)
qed

lemma sum_special_case: "(\<Sum>n\<leftarrow>ns. if n = 1 then 1 else n) = sum_list (ns :: nat list)"
  by (induction ns) simp_all

section \<open>Construction failures\<close>

text \<open>
  Claim C2. Construction fails, with a \<open>ValueError\<close>, exactly when the lengths
  disagree. When the identifiers and structures counts differ, the error names that pair
  and carries the two counts; when they agree and the identifiers and orientations counts
  differ, the second check runs and its error, with its two counts, is raised. Whenever
  \<open>__init__\<close> raises, the object is as it was before the call: no attribute has been
  set.
\<close>

theorem init_length_mismatch:
  "(length ids \<noteq> length structs \<longrightarrow>
      init self ids structs oris =
        (Some (ValueError Structures (length ids) (length structs)), self)
      \<and> StructureLibrary_call ids structs oris =
          Inl (ValueError Structures (length ids) (length structs)))
   \<and> (length ids = length structs \<and> length ids \<noteq> length oris \<longrightarrow>
      init self ids structs oris =
        (Some (ValueError Orientations (length ids) (length oris)), self)
      \<and> StructureLibrary_call ids structs oris =
          Inl (ValueError Orientations (length ids) (length oris)))
   \<and> ((\<exists>e. fst (init self ids structs oris) = Some e) \<longleftrightarrow>
        (length ids \<noteq> length structs \<or> length ids \<noteq> length oris))
   \<and> ((\<exists>e. StructureLibrary_call ids structs oris = Inl e) \<longleftrightarrow>
        (length ids \<noteq> length structs \<or> length ids \<noteq> length oris))
   \<and> ((\<exists>e. fst (init self ids structs oris) = Some e) \<longrightarrow>
        snd (init self ids structs oris) = self)"
  by (simp add: init_def StructureLibrary_call_def)

theorem init_length_mismatch_witness:
  "init (new_object :: (string, nat) StructureLibrary) [''a''] [] [PyList []] =
     (Some (ValueError Structures 1 0), new_object)
   \<and> StructureLibrary_call [''a''] ([] :: nat list) [PyList []] = Inl (ValueError Structures 1 0)
   \<and> init (new_object :: (string, nat) StructureLibrary) [''a''] [7] [] =
     (Some (ValueError Orientations 1 0), new_object)
   \<and> StructureLibrary_call [''a''] [7 :: nat] [] = Inl (ValueError Orientations 1 0)
   \<and> identifiers (snd (init (new_object :: (string, nat) StructureLibrary) [''a''] [7] [])) = None
   \<and> struct_lib (snd (init (new_object :: (string, nat) StructureLibrary) [''a''] [7] [])) = None"
proof -
  have a: "length [''a''] \<noteq> length ([] :: nat list)" by simp
  have b: "length [''a''] = length [7 :: nat] \<and> length [''a''] \<noteq> length ([] :: pyobj list)"
    by simp
  from a init_length_mismatch
    [of "[''a'']" "[] :: nat list" "new_object :: (string, nat) StructureLibrary" "[PyList []]"]
  have 1: "init (new_object :: (string, nat) StructureLibrary) [''a''] [] [PyList []] =
     (Some (ValueError Structures 1 0), new_object)
   \<and> StructureLibrary_call [''a''] ([] :: nat list) [PyList []] = Inl (ValueError Structures 1 0)"
    by simp
  from b init_length_mismatch
    [of "[''a'']" "[7 :: nat]" "new_object :: (string, nat) StructureLibrary" "[]"]
  have 2: "init (new_object :: (string, nat) StructureLibrary) [''a''] [7] [] =
     (Some (ValueError Orientations 1 0), new_object)
   \<and> StructureLibrary_call [''a''] [7 :: nat] [] = Inl (ValueError Orientations 1 0)"
    by simp
  from 1 2 show ?thesis by (simp add: new_object_def)
qed

section \<open>Duplicate identifiers\<close>


section \<open>The value of get_library_size\<close>

text \<open>
  Claim C3. On a constructed library whose orientation-sets all have a length,
  \<open>get_library_size\<close> returns the sum over the positions of a count that is 1 when
  the length is 1 and the length otherwise. In particular, with \<open>[(10,10,10)]\<close> for
  \<open>"a"\<close> and \<open>[(0,0,0), (1,1,1)]\<close> for \<open>"b"\<close>, \<open>get_library_size()\<close> returns 3.
\<close>

theorem get_library_size_sum:
  "(StructureLibrary_call ids structs oris = Inr lib \<and> map py_len oris = map Inr ns \<longrightarrow>
      fst (get_library_size lib to_print) = Inr (\<Sum>n\<leftarrow>ns. if n = 1 then 1 else n))
   \<and> (\<exists>lib'.
        StructureLibrary_call [''a'', ''b''] [S1, S2]
          [PyList [PyTuple [PyNum 10, PyNum 10, PyNum 10]],
           PyList [PyTuple [PyNum 0, PyNum 0, PyNum 0], PyTuple [PyNum 1, PyNum 1, PyNum 1]]]
          = Inr lib'
        \<and> fst (get_library_size lib' False) = Inr 3)"
proof (intro conjI impI)
  assume a: "StructureLibrary_call ids structs oris = Inr lib \<and> map py_len oris = map Inr ns"
  then have call: "StructureLibrary_call ids structs oris = Inr lib"
    and sized: "map py_len oris = map Inr ns" by simp_all
  have "to_print \<longrightarrow> (\<exists>ids. identifiers lib = Some ids \<and> length oris \<le> length ids)"
    using call_attributes(1,4) [OF call] by simp
  with call_attributes(3) [OF call] sized
  show "fst (get_library_size lib to_print) = Inr (\<Sum>n\<leftarrow>ns. if n = 1 then 1 else n)"
    by (rule get_library_size_value)
next
  show "\<exists>lib'.
        StructureLibrary_call [''a'', ''b''] [S1, S2]
          [PyList [PyTuple [PyNum 10, PyNum 10, PyNum 10]],
           PyList [PyTuple [PyNum 0, PyNum 0, PyNum 0], PyTuple [PyNum 1, PyNum 1, PyNum 1]]]
          = Inr lib'
        \<and> fst (get_library_size lib' False) = Inr 3"
    by (simp add: StructureLibrary_call_def init_def new_object_def fst_get_library_size
        py_getitem_def)
qed

theorem get_library_size_sum_witness:
  "\<exists>lib. StructureLibrary_call [''a'', ''b'', ''c''] [1 :: nat, 2, 3]
            [PyList [PyNum 5], PyTuple [], PyList [PyNum 1, PyNum 2]] = Inr lib
     \<and> map py_len [PyList [PyNum 5], PyTuple [], PyList [PyNum 1, PyNum 2]] = map Inr [1, 0, 2]
     \<and> fst (get_library_size lib True) = Inr 3"
proof -
  let ?oris = "[PyList [PyNum 5], PyTuple [], PyList [PyNum 1, PyNum 2]]"
  have "length [''a'', ''b'', ''c''] = length [1 :: nat, 2, 3]"
    and "length [''a'', ''b'', ''c''] = length ?oris" by simp_all
  then obtain lib where
    call: "StructureLibrary_call [''a'', ''b'', ''c''] [1 :: nat, 2, 3] ?oris = Inr lib"
    by (simp add: StructureLibrary_call_def init_def)
  have sized: "map py_len ?oris = map Inr [1, 0, 2]" by simp
  from get_library_size_sum have
    "StructureLibrary_call [''a'', ''b'', ''c''] [1 :: nat, 2, 3] ?oris = Inr lib
       \<and> map py_len ?oris = map Inr [1, 0, 2] \<longrightarrow>
     fst (get_library_size lib True) = Inr (\<Sum>n\<leftarrow>[1, 0, 2]. if n = 1 then 1 else n)"
    by (rule conjunct1)
  with call sized have "fst (get_library_size lib True) = Inr 3" by simp
  with call sized show ?thesis by blast
qed

text \<open>
  Claim C4 says that an orientation-set stored as one bare tuple of three angles counts
  as one entry, as a one-element list does. The method does otherwise: the library with
  the bare tuple \<open>(10,10,10)\<close> for \<open>"a"\<close> has size 3, and the library with the
  one-element list \<open>[(10,10,10)]\<close> has size 1. The docstring's own flat form
  \<open>[1, 2]\<close>, taken literally, has no size at all: \<open>len\<close> of a number raises.
\<close>

theorem bare_tuple_counted_by_length:
  "\<exists>lib lib' lib''.
     StructureLibrary_call [''a''] [S] [PyTuple [PyNum 10, PyNum 10, PyNum 10]] = Inr lib
     \<and> fst (get_library_size lib False) = Inr 3
     \<and> StructureLibrary_call [''a''] [S] [PyList [PyTuple [PyNum 10, PyNum 10, PyNum 10]]]
         = Inr lib'
     \<and> fst (get_library_size lib' False) = Inr 1
     \<and> StructureLibrary_call [''a'', ''b''] [S, S] [PyNum 1, PyNum 2] = Inr lib''
     \<and> fst (get_library_size lib'' False) = Inl TypeError"
  by (simp add: StructureLibrary_call_def init_def new_object_def fst_get_library_size
      py_getitem_def)

text \<open>
  Claim C9. For every constructed library, \<open>get_library_size\<close> returns the same
  value (or raises the same exception) with \<open>to_print=True\<close> as with
  \<open>to_print=False\<close>. The method assigns no attribute, so the library is the same
  object before and after; only the output differs.
\<close>

theorem to_print_keeps_result:
  "StructureLibrary_call ids structs oris = Inr lib \<Longrightarrow>
     fst (get_library_size lib True) = fst (get_library_size lib False)"
proof -
  assume call: "StructureLibrary_call ids structs oris = Inr lib"
  have "fst (size_loop lib True [0..<length oris] 0 []) =
        fst (size_loop lib False [0..<length oris] 0 [])"
    using call_attributes(3,1) [OF call]
  proof (rule size_loop_print)
    show "length oris \<le> length ids" using call_attributes(4) [OF call] by simp
    show "\<forall>i \<in> set [0..<length oris]. i < length oris" by simp
  qed
  then show ?thesis
    using call_attributes(3) [OF call] by (simp add: fst_get_library_size)
qed

theorem to_print_keeps_result_witness:
  "\<exists>lib. StructureLibrary_call [''a'', ''b''] [1 :: nat, 2]
            [PyTuple [PyNum 10, PyNum 10, PyNum 10], PyList []] = Inr lib
     \<and> fst (get_library_size lib True) = Inr 3
     \<and> fst (get_library_size lib False) = Inr 3"
proof -
  let ?oris = "[PyTuple [PyNum 10, PyNum 10, PyNum 10], PyList []]"
  let ?lib = "\<lparr>identifiers = Some [''a'', ''b''], structures = Some [1 :: nat, 2],
               orientations = Some ?oris,
               struct_lib = Some [(''a'', 1, PyTuple [PyNum 10, PyNum 10, PyNum 10]),
                                  (''b'', 2, PyList [])]\<rparr>"
  have call: "StructureLibrary_call [''a'', ''b''] [1 :: nat, 2] ?oris = Inr ?lib"
    by (simp add: StructureLibrary_call_def init_def new_object_def)
  have f: "fst (get_library_size ?lib False) = Inr 3"
    by (simp add: fst_get_library_size py_getitem_def)
  from to_print_keeps_result [OF call] f
  have "fst (get_library_size ?lib True) = Inr 3" by simp
  with call f show ?thesis by blast
qed

text \<open>
  Claim C10. The branch on a length of 1 changes nothing: \<open>get_library_size\<close>
  equals, on every object and for both values of the flag, in result and in output, the
  method without the branch; on a constructed library whose orientation-sets all have a
  length it returns the plain sum of the lengths; so a bare tuple of three angles
  contributes 3 and an empty orientation-set contributes 0.
\<close>

theorem special_case_is_vacuous:
  "get_library_size self to_print = get_library_size_plain self to_print
   \<and> (StructureLibrary_call ids structs oris = Inr lib \<and> map py_len oris = map Inr ns \<longrightarrow>
        fst (get_library_size lib to_print) = Inr (sum_list ns))
   \<and> (\<exists>lib' lib''.
        StructureLibrary_call [k] [S] [PyTuple [PyNum a, PyNum b, PyNum c]] = Inr lib'
        \<and> fst (get_library_size lib' to_print) = Inr 3
        \<and> StructureLibrary_call [k] [S] [PyList []] = Inr lib''
        \<and> fst (get_library_size lib'' to_print) = Inr 0)"
proof (intro conjI impI)
  show "get_library_size self to_print = get_library_size_plain self to_print"
    by (simp only: get_library_size_def get_library_size_plain_def size_loop_plain_eq)
next
  assume a: "StructureLibrary_call ids structs oris = Inr lib \<and> map py_len oris = map Inr ns"
  then have call: "StructureLibrary_call ids structs oris = Inr lib"
    and sized: "map py_len oris = map Inr ns" by simp_all
  have "to_print \<longrightarrow> (\<exists>ids. identifiers lib = Some ids \<and> length oris \<le> length ids)"
    using call_attributes(1,4) [OF call] by simp
  with call_attributes(3) [OF call] sized
  have "fst (get_library_size lib to_print) = Inr (\<Sum>n\<leftarrow>ns. if n = 1 then 1 else n)"
    by (rule get_library_size_value)
  then show "fst (get_library_size lib to_print) = Inr (sum_list ns)"
    by (simp only: sum_special_case)
next
  show "\<exists>lib' lib''.
        StructureLibrary_call [k] [S] [PyTuple [PyNum a, PyNum b, PyNum c]] = Inr lib'
        \<and> fst (get_library_size lib' to_print) = Inr 3
        \<and> StructureLibrary_call [k] [S] [PyList []] = Inr lib''
        \<and> fst (get_library_size lib'' to_print) = Inr 0"
    by (simp add: StructureLibrary_call_def init_def new_object_def fst_get_library_size
        py_getitem_def)
qed

theorem special_case_is_vacuous_witness:
  "\<exists>lib. StructureLibrary_call [''a'', ''b''] [1 :: nat, 2]
            [PyList [PyNum 5], PyTuple [PyNum 1, PyNum 2, PyNum 3]] = Inr lib
     \<and> map py_len [PyList [PyNum 5], PyTuple [PyNum 1, PyNum 2, PyNum 3]] = map Inr [1, 3]
     \<and> fst (get_library_size lib False) = Inr 4"
proof -
  let ?oris = "[PyList [PyNum 5], PyTuple [PyNum 1, PyNum 2, PyNum 3]]"
  have "length [''a'', ''b''] = length [1 :: nat, 2]"
    and "length [''a'', ''b''] = length ?oris" by simp_all
  then obtain lib where
    call: "StructureLibrary_call [''a'', ''b''] [1 :: nat, 2] ?oris = Inr lib"
    by (simp add: StructureLibrary_call_def init_def)
  have sized: "map py_len ?oris = map Inr [1, 3]" by simp
  from special_case_is_vacuous have
    "StructureLibrary_call [''a'', ''b''] [1 :: nat, 2] ?oris = Inr lib
       \<and> map py_len ?oris = map Inr [1, 3] \<longrightarrow>
     fst (get_library_size lib False) = Inr (sum_list [1, 3])"
    by (rule conjunct2 [THEN conjunct1])
  with call sized have "fst (get_library_size lib False) = Inr 4" by simp
  with call sized show ?thesis by blast
qed

section \<open>from_crystal_systems\<close>

lemma generate_orientations_recording:
  "map (\<lambda>system. g system resolution equal) systems = map Inr new \<Longrightarrow>
   generate_orientations (recording g) systems resolution equal acc calls =
     (Inr (acc @ new), calls @ map (\<lambda>system. (system, resolution, equal)) systems)"
proof (induction systems arbitrary: acc calls new)
  case Nil
  then show ?case by simp
next
  case (Cons system rest)
  from Cons.prems obtain ori new' where new: "new = ori # new'"
    and ori: "g system resolution equal = Inr ori"
    and rest: "map (\<lambda>system. g system resolution equal) rest = map Inr new'"
    by (cases new) auto
  have step: "generate_orientations (recording g) (system # rest) resolution equal acc calls =
      generate_orientations (recording g) rest resolution equal (acc @ [ori])
        (calls @ [(system, resolution, equal)])"
    using ori by (simp add: recording_def)
  from rest have
    "generate_orientations (recording g) rest resolution equal (acc @ [ori])
       (calls @ [(system, resolution, equal)]) =
     (Inr ((acc @ [ori]) @ new'),
      (calls @ [(system, resolution, equal)]) @ map (\<lambda>system. (system, resolution, equal)) rest)"
    by (rule Cons.IH)
  with new show ?case unfolding step by simp
qed

lemma from_crystal_systems_recording:
  assumes "map (\<lambda>system. g system resolution equal) systems = map Inr oris"
  shows "from_crystal_systems (recording g) ids structs systems resolution equal calls =
     (StructureLibrary_call ids structs oris,
      calls @ map (\<lambda>system. (system, resolution, equal)) systems)"
proof -
  from assms have
    "generate_orientations (recording g) systems resolution equal [] calls =
       (Inr ([] @ oris), calls @ map (\<lambda>system. (system, resolution, equal)) systems)"
    by (rule generate_orientations_recording)
  then show ?thesis by (simp add: from_crystal_systems_def)
qed

text \<open>
  Claim C7. With a generator that returns on every system, \<open>from_crystal_systems\<close>
  calls it once per element of \<open>systems\<close>, in order, each time with the system, the
  resolution and the equal-mode it was given (the recorded calls), collects the results
  in that order, and returns what the constructor call returns on the identifiers, the
  structures and these orientation-sets. With the generator that always returns
  \<open>[(0,0,0)]\<close> and as many systems and structures as identifiers, the library's
  \<open>orientations\<close> is \<open>[[(0,0,0)]] * N\<close>.
\<close>

theorem from_crystal_systems_calls_generator:
  "(map (\<lambda>system. g system resolution equal) systems = map Inr oris \<longrightarrow>
      from_crystal_systems (recording g) ids structs systems resolution equal calls =
        (StructureLibrary_call ids structs oris,
         calls @ map (\<lambda>system. (system, resolution, equal)) systems))
   \<and> (length systems = length ids \<and> length structs = length ids \<longrightarrow>
       (\<exists>lib.
          from_crystal_systems
            (recording (\<lambda>system resolution equal.
               Inr (PyList [PyTuple [PyNum 0, PyNum 0, PyNum 0]])))
            ids structs systems resolution equal calls =
            (Inr lib, calls @ map (\<lambda>system. (system, resolution, equal)) systems)
          \<and> orientations lib =
              Some (replicate (length ids) (PyList [PyTuple [PyNum 0, PyNum 0, PyNum 0]]))))"
proof (intro conjI impI)
  assume "map (\<lambda>system. g system resolution equal) systems = map Inr oris"
  then show "from_crystal_systems (recording g) ids structs systems resolution equal calls =
        (StructureLibrary_call ids structs oris,
         calls @ map (\<lambda>system. (system, resolution, equal)) systems)"
    by (rule from_crystal_systems_recording)
next
  let ?stub = "\<lambda>system resolution equal. Inr (PyList [PyTuple [PyNum 0, PyNum 0, PyNum 0]])
                 :: error + pyobj"
  let ?oris = "replicate (length ids) (PyList [PyTuple [PyNum 0, PyNum 0, PyNum 0]])"
  assume len: "length systems = length ids \<and> length structs = length ids"
  then have "map (\<lambda>system. ?stub system resolution equal) systems = map Inr ?oris"
    by (simp add: map_replicate_const)
  then have run: "from_crystal_systems (recording ?stub) ids structs systems resolution equal calls =
        (StructureLibrary_call ids structs ?oris,
         calls @ map (\<lambda>system. (system, resolution, equal)) systems)"
    by (rule from_crystal_systems_recording)
  from len obtain lib where call: "StructureLibrary_call ids structs ?oris = Inr lib"
    by (simp add: StructureLibrary_call_def init_def)
  from call_attributes(3) [OF call] run call
  show "\<exists>lib.
          from_crystal_systems (recording ?stub) ids structs systems resolution equal calls =
            (Inr lib, calls @ map (\<lambda>system. (system, resolution, equal)) systems)
          \<and> orientations lib = Some ?oris"
    by simp
qed

theorem from_crystal_systems_calls_generator_witness:
  "\<exists>lib.
     from_crystal_systems
       (recording (\<lambda>system resolution equal.
          Inr (PyList [PyTuple [PyNum 0, PyNum 0, PyNum 0]])))
       [''a'', ''b''] [1 :: nat, 2] [''cubic'', ''hexagonal''] (1 :: nat) ''angle'' [] =
       (Inr lib, [(''cubic'', 1, ''angle''), (''hexagonal'', 1, ''angle'')])
     \<and> orientations lib =
         Some [PyList [PyTuple [PyNum 0, PyNum 0, PyNum 0]],
               PyList [PyTuple [PyNum 0, PyNum 0, PyNum 0]]]
     \<and> from_crystal_systems
         (recording (\<lambda>system resolution equal. if system = ''cubic'' then Inr (PyList [])
                      else Inr (PyList [PyTuple [PyNum 0, PyNum 0, PyNum resolution]])))
         [''a'', ''b''] [1 :: nat, 2] [''cubic'', ''hexagonal''] (5 :: real) ''angle'' [] =
       (StructureLibrary_call [''a'', ''b''] [1 :: nat, 2]
          [PyList [], PyList [PyTuple [PyNum 0, PyNum 0, PyNum 5]]],
        [(''cubic'', 5, ''angle''), (''hexagonal'', 5, ''angle'')])"
proof -
  have h: "length [''cubic'', ''hexagonal''] = length [''a'', ''b'']
           \<and> length [1 :: nat, 2] = length [''a'', ''b'']" by simp
  from from_crystal_systems_calls_generator have
    "length [''cubic'', ''hexagonal''] = length [''a'', ''b'']
       \<and> length [1 :: nat, 2] = length [''a'', ''b''] \<longrightarrow>
     (\<exists>lib.
        from_crystal_systems
          (recording (\<lambda>system resolution equal.
             Inr (PyList [PyTuple [PyNum 0, PyNum 0, PyNum 0]])))
          [''a'', ''b''] [1 :: nat, 2] [''cubic'', ''hexagonal''] (1 :: nat) ''angle'' [] =
          (Inr lib, [] @ map (\<lambda>system. (system, 1, ''angle'')) [''cubic'', ''hexagonal''])
        \<and> orientations lib =
            Some (replicate (length [''a'', ''b''])
                    (PyList [PyTuple [PyNum 0, PyNum 0, PyNum 0]])))"
    by (rule conjunct2)
  with h have 1: "\<exists>lib.
     from_crystal_systems
       (recording (\<lambda>system resolution equal.
          Inr (PyList [PyTuple [PyNum 0, PyNum 0, PyNum 0]])))
       [''a'', ''b''] [1 :: nat, 2] [''cubic'', ''hexagonal''] (1 :: nat) ''angle'' [] =
       (Inr lib, [(''cubic'', 1, ''angle''), (''hexagonal'', 1, ''angle'')])
     \<and> orientations lib =
         Some [PyList [PyTuple [PyNum 0, PyNum 0, PyNum 0]],
               PyList [PyTuple [PyNum 0, PyNum 0, PyNum 0]]]"
    by (simp add: numeral_2_eq_2)
  let ?g = "\<lambda>system resolution equal. if system = ''cubic'' then Inr (PyList [])
              else (Inr (PyList [PyTuple [PyNum 0, PyNum 0, PyNum resolution]]) :: error + pyobj)"
  have g: "map (\<lambda>system. ?g system (5 :: real) ''angle'') [''cubic'', ''hexagonal'']
           = map Inr [PyList [], PyList [PyTuple [PyNum 0, PyNum 0, PyNum 5]]]"
    by simp
  from from_crystal_systems_calls_generator have
    "map (\<lambda>system. ?g system (5 :: real) ''angle'') [''cubic'', ''hexagonal'']
       = map Inr [PyList [], PyList [PyTuple [PyNum 0, PyNum 0, PyNum 5]]] \<longrightarrow>
     from_crystal_systems (recording ?g)
         [''a'', ''b''] [1 :: nat, 2] [''cubic'', ''hexagonal''] (5 :: real) ''angle'' [] =
       (StructureLibrary_call [''a'', ''b''] [1 :: nat, 2]
          [PyList [], PyList [PyTuple [PyNum 0, PyNum 0, PyNum 5]]],
        [] @ map (\<lambda>system. (system, 5, ''angle'')) [''cubic'', ''hexagonal''])"
    by (rule conjunct1)
  with g have 2: "from_crystal_systems (recording ?g)
         [''a'', ''b''] [1 :: nat, 2] [''cubic'', ''hexagonal''] (5 :: real) ''angle'' [] =
       (StructureLibrary_call [''a'', ''b''] [1 :: nat, 2]
          [PyList [], PyList [PyTuple [PyNum 0, PyNum 0, PyNum 5]]],
        [(''cubic'', 5, ''angle''), (''hexagonal'', 5, ''angle'')])"
    by simp
  from 1 2 show ?thesis by blast
qed

text \<open>
  Claim C8. \<open>from_crystal_systems\<close> does not compare the length of \<open>systems\<close>
  with that of \<open>identifiers\<close>: when identifiers and structures have the same length
  and \<open>systems\<close> a different one (shorter or longer), every system is still passed to
  the generator, and the call then fails with the constructor's
  identifiers-versus-orientations error.
\<close>

theorem from_crystal_systems_length_unchecked:
  assumes "length ids = length structs" and "length systems \<noteq> length ids"
    and "map (\<lambda>system. g system resolution equal) systems = map Inr oris"
  shows "from_crystal_systems (recording g) ids structs systems resolution equal calls =
     (Inl (ValueError Orientations (length ids) (length systems)),
      calls @ map (\<lambda>system. (system, resolution, equal)) systems)"
proof -
  from assms(3) have "length systems = length oris" by (metis length_map)
  with assms(1,2) have
    "StructureLibrary_call ids structs oris =
       Inl (ValueError Orientations (length ids) (length systems))"
    by (simp add: StructureLibrary_call_def init_def)
  moreover from assms(3) have
    "from_crystal_systems (recording g) ids structs systems resolution equal calls =
       (StructureLibrary_call ids structs oris,
        calls @ map (\<lambda>system. (system, resolution, equal)) systems)"
    by (rule from_crystal_systems_recording)
  ultimately show ?thesis by simp
qed

theorem from_crystal_systems_length_unchecked_witness:
  "from_crystal_systems (recording (\<lambda>system resolution equal. Inr (PyList [])))
     [''a'', ''b''] [1 :: nat, 2] [''cubic''] (1 :: nat) ''angle'' [] =
     (Inl (ValueError Orientations 2 1), [(''cubic'', 1, ''angle'')])
   \<and> from_crystal_systems (recording (\<lambda>system resolution equal. Inr (PyList [])))
     [''a''] [1 :: nat] [''cubic'', ''hexagonal''] (1 :: nat) ''angle'' [] =
     (Inl (ValueError Orientations 1 2), [(''cubic'', 1, ''angle''), (''hexagonal'', 1, ''angle'')])"
proof -
  let ?g = "\<lambda>system resolution equal. Inr (PyList []) :: error + pyobj"
  have a1: "length [''a'', ''b''] = length [1 :: nat, 2]"
    and a2: "length [''cubic''] \<noteq> length [''a'', ''b'']"
    and a3: "map (\<lambda>system. ?g system (1 :: nat) ''angle'') [''cubic''] = map Inr [PyList []]"
    by simp_all
  have b1: "length [''a''] = length [1 :: nat]"
    and b2: "length [''cubic'', ''hexagonal''] \<noteq> length [''a'']"
    and b3: "map (\<lambda>system. ?g system (1 :: nat) ''angle'') [''cubic'', ''hexagonal'']
             = map Inr [PyList [], PyList []]"
    by simp_all
  from a1 a2 a3 have
    "from_crystal_systems (recording ?g) [''a'', ''b''] [1 :: nat, 2] [''cubic''] (1 :: nat)
       ''angle'' [] =
     (Inl (ValueError Orientations (length [''a'', ''b'']) (length [''cubic''])),
      [] @ map (\<lambda>system. (system, 1, ''angle'')) [''cubic''])"
    by (rule from_crystal_systems_length_unchecked)
  moreover from b1 b2 b3 have
    "from_crystal_systems (recording ?g) [''a''] [1 :: nat] [''cubic'', ''hexagonal''] (1 :: nat)
       ''angle'' [] =
     (Inl (ValueError Orientations (length [''a'']) (length [''cubic'', ''hexagonal''])),
      [] @ map (\<lambda>system. (system, 1, ''angle'')) [''cubic'', ''hexagonal''])"
    by (rule from_crystal_systems_length_unchecked)
  ultimately show ?thesis by simp
qed

end
